theory Spec2Isabelle
  imports Complex_Main
begin

section \<open>The browser platform\<close>

text \<open>
  The client is a single React component. Everything it calls that is not its own code
  is kept explicit: the HTTP client (a request either resolves with the response data or
  rejects), the JSON codec of the browser, the persistent key/value area, the
  notification channel and the console. JSON values are an abstract type \<open>'j\<close>.
\<close>

datatype js_error = AxiosError | SyntaxError | ReferenceError

datatype 'j outcome = Resolved 'j | Rejected

datatype completion = Returned | Threw js_error

datatype toast = Toast_error string | Toast_success string

datatype http_method = GET | POST | PUT | DELETE

record book_form =
  title :: string
  status :: string
  rating :: real

record edit_book_form = book_form +
  originalTitle :: string

record quote_form0 =
  qtext :: string
  discussion :: string

record quote_form = quote_form0 +
  user_id :: int

record book_updates =
  new_title :: "string option"
  new_status :: "string option"
  new_rating :: "real option"

text \<open>
  The body of a request. \<open>QuoteBody book_title text user_id discussion\<close> is the object
  literal posted by \<open>addQuote\<close>; its \<open>book_title\<close> is \<open>None\<close> when the JavaScript value
  is \<open>null\<close>.
\<close>

datatype body =
    NoBody
  | BookBody book_form
  | UpdatesBody book_updates
  | QuoteBody "string option" string int string
  | DiscussionBody string

datatype request = Request http_method string body

text \<open>An in-flight call of one of the fetch functions, suspended at its \<open>await\<close>.\<close>

datatype task = FetchBooks | FetchBooksWithQuotes | FetchQuotes

text \<open>
  \<open>JSON_parse\<close> answers \<open>None\<close> where \<open>JSON.parse\<close> throws a SyntaxError;
  \<open>empty_array\<close> is the value of the literal \<open>[]\<close>.
\<close>

record 'j platform =
  BACKEND_URL :: string
  JSON_stringify :: "'j \<Rightarrow> string"
  JSON_parse :: "string \<Rightarrow> 'j option"
  empty_array :: 'j

definition API :: "'j platform \<Rightarrow> string" where
  "API P = BACKEND_URL P @ ''/api''"

text \<open>
  \<open>encodeURIComponent\<close> on a string of UTF-8 bytes: the unreserved characters stay, every
  other byte becomes \<open>%XX\<close>.
\<close>

definition unreserved :: "char \<Rightarrow> bool" where
  "unreserved c \<longleftrightarrow>
     c \<in> set (''ABCDEFGHIJKLMNOPQRSTUVWXYZabcdefghijklmnopqrstuvwxyz0123456789-_.!~*()''
                @ [CHR 0x27])"

definition hex_digit :: "nat \<Rightarrow> char" where
  "hex_digit n = ''0123456789ABCDEF'' ! (n mod 16)"

definition encode_char :: "char \<Rightarrow> string" where
  "encode_char c =
     (if unreserved c then [c]
      else [CHR ''%'', hex_digit (of_char c div 16), hex_digit (of_char c mod 16)])"

definition encodeURIComponent :: "string \<Rightarrow> string" where
  "encodeURIComponent s = concat (map encode_char s)"

text \<open>
  \<open>String.prototype.trim\<close> removes the white space and the line terminators of
  ECMAScript at both ends. On a string of UTF-8 bytes these are the six ASCII characters
  (tab, line feed, vertical tab, form feed, carriage return, space) and the encodings of
  U+00A0, U+1680, U+2000 to U+200A, U+2028, U+2029, U+202F, U+205F, U+3000 and U+FEFF.
\<close>

definition white_space :: "string list" where
  "white_space =
     [[CHR 0x09], [CHR 0x0A], [CHR 0x0B], [CHR 0x0C], [CHR 0x0D], [CHR 0x20],
      [CHR 0xC2, CHR 0xA0], [CHR 0xE1, CHR 0x9A, CHR 0x80],
      [CHR 0xE2, CHR 0x80, CHR 0x80], [CHR 0xE2, CHR 0x80, CHR 0x81],
      [CHR 0xE2, CHR 0x80, CHR 0x82], [CHR 0xE2, CHR 0x80, CHR 0x83],
      [CHR 0xE2, CHR 0x80, CHR 0x84], [CHR 0xE2, CHR 0x80, CHR 0x85],
      [CHR 0xE2, CHR 0x80, CHR 0x86], [CHR 0xE2, CHR 0x80, CHR 0x87],
      [CHR 0xE2, CHR 0x80, CHR 0x88], [CHR 0xE2, CHR 0x80, CHR 0x89],
      [CHR 0xE2, CHR 0x80, CHR 0x8A], [CHR 0xE2, CHR 0x80, CHR 0xA8],
      [CHR 0xE2, CHR 0x80, CHR 0xA9], [CHR 0xE2, CHR 0x80, CHR 0xAF],
      [CHR 0xE2, CHR 0x81, CHR 0x9F], [CHR 0xE3, CHR 0x80, CHR 0x80],
      [CHR 0xEF, CHR 0xBB, CHR 0xBF]]"

text \<open>\<open>strip ws s\<close> drops from the front of \<open>s\<close> every leading character listed in \<open>ws\<close>.\<close>

fun strip :: "string list \<Rightarrow> string \<Rightarrow> string" where
  "strip ws [] = []"
| "strip ws (c # cs) =
     (if [c] \<in> set ws then strip ws cs
      else case cs of
             [] \<Rightarrow> [c]
           | d # r \<Rightarrow>
               if [c, d] \<in> set ws then strip ws r
               else (case r of
                       [] \<Rightarrow> c # cs
                     | e # r' \<Rightarrow> if [c, d, e] \<in> set ws then strip ws r' else c # cs))"

definition trim :: "string \<Rightarrow> string" where
  "trim s = rev (strip (map rev white_space) (rev (strip white_space s)))"

section \<open>Component state\<close>

text \<open>
  The state hooks that both revisions of the component declare, followed by what the
  component reaches outside itself: the persistent storage, the notifications raised, the
  console, the requests issued (in order), the fetch calls in flight and the rejections
  of promises that nobody awaits.
\<close>

record 'j core =
  books :: 'j
  quotes :: 'j
  selectedBook :: "string option"
  showAddBook :: bool
  showAddQuote :: bool
  showEditBook :: bool
  bookForm :: book_form
  editBookForm :: edit_book_form
  editingBook :: "'j option"
  localStorage :: "string \<rightharpoonup> string"
  toasts :: "toast list"
  console :: "js_error list"
  requests :: "request list"
  pending :: "task list"
  unhandled :: "js_error list"

text \<open>The revision with the books-with-quotes collection and the loading flag.\<close>

record 'j app = "'j core" +
  booksWithQuotes :: 'j
  loading :: bool
  quoteForm :: quote_form

definition toast_error :: "string \<Rightarrow> ('j, 'z) core_scheme \<Rightarrow> ('j, 'z) core_scheme" where
  "toast_error msg st = st\<lparr>toasts := toasts st @ [Toast_error msg]\<rparr>"

definition toast_success :: "string \<Rightarrow> ('j, 'z) core_scheme \<Rightarrow> ('j, 'z) core_scheme" where
  "toast_success msg st = st\<lparr>toasts := toasts st @ [Toast_success msg]\<rparr>"

definition console_error :: "js_error \<Rightarrow> ('j, 'z) core_scheme \<Rightarrow> ('j, 'z) core_scheme" where
  "console_error e st = st\<lparr>console := console st @ [e]\<rparr>"

definition axios :: "request \<Rightarrow> ('j, 'z) core_scheme \<Rightarrow> ('j, 'z) core_scheme" where
  "axios rq st = st\<lparr>requests := requests st @ [rq]\<rparr>"

section \<open>Fetching one collection\<close>

text \<open>
  Each fetch function is an \<open>async\<close> function whose callers never await it. Its call runs
  up to the \<open>await\<close>: the GET is issued and the call is in flight. Its continuation
  (\<open>_resume\<close>) runs when the request settles, with the outcome of the request: the
  \<open>try\<close> block on a response, the \<open>catch\<close> block on a rejection. The continuation
  returns the state and how the function completed; \<open>Threw e\<close> is an exception that left
  the \<open>catch\<close> block, so that the promise of the function rejects.

  The only exception of the \<open>try\<close> block that is modelled is the rejection of the
  request: \<open>JSON.stringify\<close> is total on response data, and the storage is taken to
  accept every write (no quota).
\<close>

definition fetchBooks :: "'j platform \<Rightarrow> ('j, 'z) core_scheme \<Rightarrow> ('j, 'z) core_scheme" where
  "fetchBooks P st =
     (axios (Request GET (API P @ ''/books'') NoBody) st)\<lparr>pending := pending st @ [FetchBooks]\<rparr>"

definition fetchBooks_resume ::
  "'j platform \<Rightarrow> 'j outcome \<Rightarrow> ('j, 'z) core_scheme \<Rightarrow> ('j, 'z) core_scheme \<times> completion" where
  "fetchBooks_resume P r st =
     (case r of
        Resolved d \<Rightarrow>
          (st\<lparr>books := d,
              localStorage := (localStorage st)(''books'' \<mapsto> JSON_stringify P d)\<rparr>, Returned)
      | Rejected \<Rightarrow>
          (let st1 = console_error AxiosError st in
           case localStorage st1 ''books'' of
             None \<Rightarrow> (toast_error ''Failed to fetch books'' st1, Returned)
           | Some cached \<Rightarrow>
               if cached = [] then (toast_error ''Failed to fetch books'' st1, Returned)
               else (case JSON_parse P cached of
                       None \<Rightarrow> (st1, Threw SyntaxError)
                     | Some v \<Rightarrow>
                         (toast_error ''Failed to fetch books'' (st1\<lparr>books := v\<rparr>), Returned))))"

definition fetchBooksWithQuotes :: "'j platform \<Rightarrow> 'j app \<Rightarrow> 'j app" where
  "fetchBooksWithQuotes P st =
     (axios (Request GET (API P @ ''/books-with-quotes'') NoBody) st)
       \<lparr>pending := pending st @ [FetchBooksWithQuotes]\<rparr>"

definition fetchBooksWithQuotes_resume ::
  "'j platform \<Rightarrow> 'j outcome \<Rightarrow> 'j app \<Rightarrow> 'j app \<times> completion" where
  "fetchBooksWithQuotes_resume P r st =
     (case r of
        Resolved d \<Rightarrow>
          (st\<lparr>booksWithQuotes := d,
              localStorage := (localStorage st)(''booksWithQuotes'' \<mapsto> JSON_stringify P d)\<rparr>,
           Returned)
      | Rejected \<Rightarrow>
          (let st1 = console_error AxiosError st in
           case localStorage st1 ''booksWithQuotes'' of
             None \<Rightarrow> (toast_error ''Failed to fetch books with quotes'' st1, Returned)
           | Some cached \<Rightarrow>
               if cached = [] then (toast_error ''Failed to fetch books with quotes'' st1, Returned)
               else (case JSON_parse P cached of
                       None \<Rightarrow> (st1, Threw SyntaxError)
                     | Some v \<Rightarrow>
                         (toast_error ''Failed to fetch books with quotes''
                            (st1\<lparr>booksWithQuotes := v\<rparr>), Returned))))"

definition fetchQuotes :: "'j platform \<Rightarrow> ('j, 'z) core_scheme \<Rightarrow> ('j, 'z) core_scheme" where
  "fetchQuotes P st =
     (axios (Request GET (API P @ ''/quotes'') NoBody) st)\<lparr>pending := pending st @ [FetchQuotes]\<rparr>"

definition fetchQuotes_resume ::
  "'j platform \<Rightarrow> 'j outcome \<Rightarrow> ('j, 'z) core_scheme \<Rightarrow> ('j, 'z) core_scheme \<times> completion" where
  "fetchQuotes_resume P r st =
     (case r of
        Resolved d \<Rightarrow>
          (st\<lparr>quotes := d,
              localStorage := (localStorage st)(''quotes'' \<mapsto> JSON_stringify P d)\<rparr>, Returned)
      | Rejected \<Rightarrow>
          (let st1 = console_error AxiosError st in
           case localStorage st1 ''quotes'' of
             None \<Rightarrow> (toast_error ''Failed to fetch quotes'' st1, Returned)
           | Some cached \<Rightarrow>
               if cached = [] then (toast_error ''Failed to fetch quotes'' st1, Returned)
               else (case JSON_parse P cached of
                       None \<Rightarrow> (st1, Threw SyntaxError)
                     | Some v \<Rightarrow>
                         (toast_error ''Failed to fetch quotes'' (st1\<lparr>quotes := v\<rparr>), Returned))))"

text \<open>
  The event loop settles one fetch call in flight: its continuation runs with the outcome
  of its request, and an exception it throws is an unhandled rejection, since no caller
  awaits the promise. A task that is not in flight cannot settle.
\<close>

fun resume :: "'j platform \<Rightarrow> task \<Rightarrow> 'j outcome \<Rightarrow> 'j app \<Rightarrow> 'j app \<times> completion" where
  "resume P FetchBooks r st = fetchBooks_resume P r st"
| "resume P FetchBooksWithQuotes r st = fetchBooksWithQuotes_resume P r st"
| "resume P FetchQuotes r st = fetchQuotes_resume P r st"

definition finish :: "('j, 'z) core_scheme \<times> completion \<Rightarrow> ('j, 'z) core_scheme" where
  "finish res =
     (case snd res of
        Returned \<Rightarrow> fst res
      | Threw e \<Rightarrow> (fst res)\<lparr>unhandled := unhandled (fst res) @ [e]\<rparr>)"

definition settle :: "'j platform \<Rightarrow> task \<Rightarrow> 'j outcome \<Rightarrow> 'j app \<Rightarrow> 'j app" where
  "settle P t r st =
     (if t \<in> set (pending st)
      then finish (resume P t r (st\<lparr>pending := remove1 t (pending st)\<rparr>))
      else st)"

section \<open>Mutations\<close>

text \<open>
  A mutation awaits its write request, so it takes the outcome of that request; the
  fetch functions it calls afterwards are left in flight. \<open>confirmed\<close> is the answer of
  \<open>window.confirm\<close>.
\<close>

definition deleteBook ::
  "'j platform \<Rightarrow> string \<Rightarrow> bool \<Rightarrow> 'j outcome \<Rightarrow> ('j, 'z) core_scheme \<Rightarrow> ('j, 'z) core_scheme" where
  "deleteBook P t confirmed r st =
     (if \<not> confirmed then st
      else
        (let st1 = axios (Request DELETE (API P @ ''/books/'' @ encodeURIComponent t) NoBody) st in
         case r of
           Resolved _ \<Rightarrow> fetchBooks P (toast_success ''Book deleted successfully'' st1)
         | Rejected \<Rightarrow> toast_error ''Failed to delete book'' (console_error AxiosError st1)))"

definition updateQuoteDiscussion ::
  "'j platform \<Rightarrow> string \<Rightarrow> string \<Rightarrow> string \<Rightarrow> 'j outcome \<Rightarrow>
     ('j, 'z) core_scheme \<Rightarrow> ('j, 'z) core_scheme" where
  "updateQuoteDiscussion P bookTitle quoteText disc r st =
     (let st1 = axios (Request PUT
                  (API P @ ''/quotes/'' @ encodeURIComponent bookTitle @ ''/''
                     @ encodeURIComponent quoteText)
                  (DiscussionBody disc)) st in
      case r of
        Resolved _ \<Rightarrow> fetchQuotes P (toast_success ''Discussion updated'' st1)
      | Rejected \<Rightarrow> toast_error ''Failed to update discussion'' (console_error AxiosError st1))"

definition addBook :: "'j platform \<Rightarrow> 'j outcome \<Rightarrow> 'j app \<Rightarrow> 'j app" where
  "addBook P r st =
     (if trim (title (bookForm st)) = [] then toast_error ''Title is required'' st
      else
        (let st1 = axios (Request POST (API P @ ''/books'') (BookBody (bookForm st))) st in
         case r of
           Resolved _ \<Rightarrow>
             fetchBooksWithQuotes P (fetchBooks P
               ((toast_success ''Book added successfully'' st1)
                  \<lparr>bookForm := \<lparr>title = [], status = ''To Read'', rating = 5\<rparr>,
                   showAddBook := False\<rparr>))
         | Rejected \<Rightarrow> toast_error ''Failed to add book'' (console_error AxiosError st1)))"

definition updateBook ::
  "'j platform \<Rightarrow> string \<Rightarrow> book_updates \<Rightarrow> 'j outcome \<Rightarrow> 'j app \<Rightarrow> 'j app" where
  "updateBook P t updates r st =
     (let st1 = axios (Request PUT (API P @ ''/books/'' @ encodeURIComponent t)
                  (UpdatesBody updates)) st in
      case r of
        Resolved _ \<Rightarrow>
          fetchBooksWithQuotes P (fetchBooks P
            ((toast_success ''Book updated successfully'' st1)
               \<lparr>editingBook := None, showEditBook := False\<rparr>))
      | Rejected \<Rightarrow> toast_error ''Failed to update book'' (console_error AxiosError st1))"

definition submitEditBook :: "'j platform \<Rightarrow> 'j outcome \<Rightarrow> 'j app \<Rightarrow> 'j app" where
  "submitEditBook P r st =
     (if trim (title (editBookForm st)) = [] then toast_error ''Title is required'' st
      else updateBook P (originalTitle (editBookForm st))
             \<lparr>new_title = Some (title (editBookForm st)),
              new_status = Some (status (editBookForm st)),
              new_rating = Some (rating (editBookForm st))\<rparr> r st)"

definition addQuote :: "'j platform \<Rightarrow> 'j outcome \<Rightarrow> 'j app \<Rightarrow> 'j app" where
  "addQuote P r st =
     (if trim (qtext (quoteForm st)) = [] then toast_error ''Quote text is required'' st
      else
        (let st1 = axios (Request POST (API P @ ''/quotes'')
                     (QuoteBody (selectedBook st) (qtext (quoteForm st))
                        (user_id (quoteForm st)) (discussion (quoteForm st)))) st in
         case r of
           Resolved _ \<Rightarrow>
             fetchBooksWithQuotes P (fetchQuotes P
               ((toast_success ''Quote added successfully'' st1)
                  \<lparr>showAddQuote := False,
                   quoteForm := \<lparr>qtext = [], discussion = [], user_id = 1\<rparr>\<rparr>))
         | Rejected \<Rightarrow> toast_error ''Failed to add quote'' (console_error AxiosError st1)))"

definition deleteQuote ::
  "'j platform \<Rightarrow> string \<Rightarrow> string \<Rightarrow> bool \<Rightarrow> 'j outcome \<Rightarrow> 'j app \<Rightarrow> 'j app" where
  "deleteQuote P bookTitle quoteText confirmed r st =
     (if \<not> confirmed then st
      else
        (let st1 = axios (Request DELETE
                     (API P @ ''/quotes/'' @ encodeURIComponent bookTitle @ ''/''
                        @ encodeURIComponent quoteText) NoBody) st in
         case r of
           Resolved _ \<Rightarrow>
             fetchBooksWithQuotes P (fetchQuotes P
               (toast_success ''Quote deleted successfully'' st1))
         | Rejected \<Rightarrow> toast_error ''Failed to delete quote'' (console_error AxiosError st1)))"

section \<open>The initial load\<close>

text \<open>
  The mount effect declares the flag \<open>cancelled\<close>, calls \<open>loadAll\<close> and returns a cleanup
  that sets the flag. \<open>loadAll\<close> raises the loading flag, issues the three GETs and awaits
  \<open>Promise.all\<close> of them. \<open>Promise.all\<close> fulfils when its last promise has fulfilled, with
  the three values, and rejects as soon as one of them rejects, whatever the others do
  afterwards.
\<close>

datatype source = BooksPromise | QuotesPromise | BwqPromise

datatype 'j all_promise = Waiting "source \<rightharpoonup> 'j" | Done

record 'j mounted =
  view :: "'j app"
  cancelled :: bool
  barrier :: "'j all_promise"

datatype 'j event = Settled source "'j outcome" | Teardown

definition init :: "'j platform \<Rightarrow> (string \<rightharpoonup> string) \<Rightarrow> 'j app" where
  "init P storage =
     \<lparr>books = empty_array P, quotes = empty_array P, selectedBook = None,
      showAddBook = False, showAddQuote = False, showEditBook = False,
      bookForm = \<lparr>title = [], status = ''To Read'', rating = 5\<rparr>,
      editBookForm = \<lparr>title = [], status = ''To Read'', rating = 5, originalTitle = []\<rparr>,
      editingBook = None, localStorage = storage, toasts = [], console = [],
      requests = [], pending = [], unhandled = [],
      booksWithQuotes = empty_array P, loading = True,
      quoteForm = \<lparr>qtext = [], discussion = [], user_id = 1\<rparr>\<rparr>"

definition loadAll :: "'j platform \<Rightarrow> 'j app \<Rightarrow> 'j mounted" where
  "loadAll P st =
     \<lparr>view = axios (Request GET (API P @ ''/books-with-quotes/'') NoBody)
               (axios (Request GET (API P @ ''/quotes/'') NoBody)
                 (axios (Request GET (API P @ ''/books/'') NoBody) (st\<lparr>loading := True\<rparr>))),
      cancelled = False,
      barrier = Waiting Map.empty\<rparr>"

text \<open>
  The rest of \<open>loadAll\<close>, once \<open>Promise.all\<close> has settled: the end of the \<open>try\<close> block or
  the \<open>catch\<close> block, then the \<open>finally\<close> block. \<open>c\<close> is the value of \<open>cancelled\<close> then.
\<close>

definition loadAll_resume :: "bool \<Rightarrow> ('j \<times> 'j \<times> 'j) outcome \<Rightarrow> 'j app \<Rightarrow> 'j app" where
  "loadAll_resume c r st =
     (let st1 =
        (case r of
           Resolved (booksRes, quotesRes, bwqRes) \<Rightarrow>
             if c then st
             else st\<lparr>books := booksRes, quotes := quotesRes, booksWithQuotes := bwqRes\<rparr>
         | Rejected \<Rightarrow>
             if \<not> c then toast_error ''Failed to load data'' (console_error AxiosError st)
             else st)
      in if \<not> c then st1\<lparr>loading := False\<rparr> else st1)"

definition all_fulfilled :: "(source \<rightharpoonup> 'j) \<Rightarrow> ('j \<times> 'j \<times> 'j) option" where
  "all_fulfilled res =
     (case res BooksPromise of
        None \<Rightarrow> None
      | Some b \<Rightarrow>
          (case res QuotesPromise of
             None \<Rightarrow> None
           | Some q \<Rightarrow>
               (case res BwqPromise of
                  None \<Rightarrow> None
                | Some w \<Rightarrow> Some (b, q, w))))"

text \<open>
  What \<open>Promise.all\<close> does when one of its promises settles: the values so far, and its own
  outcome if it settles now.
\<close>

definition promise_all ::
  "source \<Rightarrow> 'j outcome \<Rightarrow> (source \<rightharpoonup> 'j) \<Rightarrow> (source \<rightharpoonup> 'j) \<times> ('j \<times> 'j \<times> 'j) outcome option" where
  "promise_all s r res =
     (case r of
        Rejected \<Rightarrow> (res, Some Rejected)
      | Resolved d \<Rightarrow> (res(s \<mapsto> d), map_option Resolved (all_fulfilled (res(s \<mapsto> d)))))"

text \<open>
  One event of the mounted view: the cleanup of the effect, or one of the three requests
  settling. A promise settles once, and a settled \<open>Promise.all\<close> ignores what its other
  promises do.
\<close>

definition step :: "'j event \<Rightarrow> 'j mounted \<Rightarrow> 'j mounted" where
  "step ev m =
     (case ev of
        Teardown \<Rightarrow> m\<lparr>cancelled := True\<rparr>
      | Settled s r \<Rightarrow>
          (case barrier m of
             Done \<Rightarrow> m
           | Waiting res \<Rightarrow>
               (case res s of
                  Some _ \<Rightarrow> m
                | None \<Rightarrow>
                    (case snd (promise_all s r res) of
                       None \<Rightarrow> m\<lparr>barrier := Waiting (fst (promise_all s r res))\<rparr>
                     | Some result \<Rightarrow>
                         m\<lparr>view := loadAll_resume (cancelled m) result (view m),
                           barrier := Done\<rparr>))))"

fun run :: "'j event list \<Rightarrow> 'j mounted \<Rightarrow> 'j mounted" where
  "run [] m = m"
| "run (ev # evs) m = run evs (step ev m)"

section \<open>The revision in frontend/src/App.js\<close>

text \<open>
  This revision shares \<open>fetchBooks\<close>, \<open>fetchQuotes\<close>, \<open>deleteBook\<close> and
  \<open>updateQuoteDiscussion\<close> with the other one, word for word. It declares no
  books-with-quotes state: the name \<open>setBooksWithQuotes\<close> is unbound, so calling it in
  the \<open>try\<close> block of \<open>fetchBooksWithQuotes\<close> throws a ReferenceError, which the
  \<open>catch\<close> block of that function logs. It keeps the author of a quote in \<open>currentUser\<close>.
  Its markup reads the undeclared \<open>booksWithQuotes\<close> as well, so the component throws
  when it renders and none of its handlers is ever bound to a button: what is said of
  this revision below is said of its functions, not of a running view.
\<close>

record 'j App = "'j core" +
  currentUser :: int
  App_quoteForm :: quote_form0

definition App_fetchBooksWithQuotes :: "'j platform \<Rightarrow> 'j App \<Rightarrow> 'j App" where
  "App_fetchBooksWithQuotes P st =
     (axios (Request GET (API P @ ''/books-with-quotes'') NoBody) st)
       \<lparr>pending := pending st @ [FetchBooksWithQuotes]\<rparr>"

definition App_fetchBooksWithQuotes_resume ::
  "'j platform \<Rightarrow> 'j outcome \<Rightarrow> 'j App \<Rightarrow> 'j App \<times> completion" where
  "App_fetchBooksWithQuotes_resume P r st =
     (case r of
        Resolved d \<Rightarrow> (console_error ReferenceError st, Returned)
      | Rejected \<Rightarrow> (console_error AxiosError st, Returned))"

fun App_resume :: "'j platform \<Rightarrow> task \<Rightarrow> 'j outcome \<Rightarrow> 'j App \<Rightarrow> 'j App \<times> completion" where
  "App_resume P FetchBooks r st = fetchBooks_resume P r st"
| "App_resume P FetchBooksWithQuotes r st = App_fetchBooksWithQuotes_resume P r st"
| "App_resume P FetchQuotes r st = fetchQuotes_resume P r st"

definition App_settle :: "'j platform \<Rightarrow> task \<Rightarrow> 'j outcome \<Rightarrow> 'j App \<Rightarrow> 'j App" where
  "App_settle P t r st =
     (if t \<in> set (pending st)
      then finish (App_resume P t r (st\<lparr>pending := remove1 t (pending st)\<rparr>))
      else st)"

definition App_addBook :: "'j platform \<Rightarrow> 'j outcome \<Rightarrow> 'j App \<Rightarrow> 'j App" where
  "App_addBook P r st =
     (if trim (title (bookForm st)) = [] then toast_error ''Title is required'' st
      else
        (let st1 = axios (Request POST (API P @ ''/books'') (BookBody (bookForm st))) st in
         case r of
           Resolved _ \<Rightarrow>
             fetchBooks P
               ((toast_success ''Book added successfully'' st1)
                  \<lparr>bookForm := \<lparr>title = [], status = ''To Read'', rating = 5\<rparr>,
                   showAddBook := False\<rparr>)
         | Rejected \<Rightarrow> toast_error ''Failed to add book'' (console_error AxiosError st1)))"

definition App_updateBook ::
  "'j platform \<Rightarrow> string \<Rightarrow> book_updates \<Rightarrow> 'j outcome \<Rightarrow> 'j App \<Rightarrow> 'j App" where
  "App_updateBook P t updates r st =
     (let st1 = axios (Request PUT (API P @ ''/books/'' @ encodeURIComponent t)
                  (UpdatesBody updates)) st in
      case r of
        Resolved _ \<Rightarrow>
          fetchBooks P ((toast_success ''Book updated successfully'' st1)\<lparr>editingBook := None\<rparr>)
      | Rejected \<Rightarrow> toast_error ''Failed to update book'' (console_error AxiosError st1))"

definition App_addQuote :: "'j platform \<Rightarrow> 'j outcome \<Rightarrow> 'j App \<Rightarrow> 'j App" where
  "App_addQuote P r st =
     (if trim (qtext (App_quoteForm st)) = [] then toast_error ''Quote text is required'' st
      else
        (let st1 = axios (Request POST (API P @ ''/quotes'')
                     (QuoteBody (selectedBook st) (qtext (App_quoteForm st))
                        (currentUser st) (discussion (App_quoteForm st)))) st in
         case r of
           Resolved _ \<Rightarrow>
             App_fetchBooksWithQuotes P (fetchQuotes P
               ((toast_success ''Quote added successfully'' st1)
                  \<lparr>showAddQuote := False,
                   App_quoteForm := \<lparr>qtext = [], discussion = []\<rparr>\<rparr>))
         | Rejected \<Rightarrow> toast_error ''Failed to add quote'' (console_error AxiosError st1)))"

definition App_deleteQuote ::
  "'j platform \<Rightarrow> string \<Rightarrow> string \<Rightarrow> bool \<Rightarrow> 'j outcome \<Rightarrow> 'j App \<Rightarrow> 'j App" where
  "App_deleteQuote P bookTitle quoteText confirmed r st =
     (if \<not> confirmed then st
      else
        (let st1 = axios (Request DELETE
                     (API P @ ''/quotes/'' @ encodeURIComponent bookTitle @ ''/''
                        @ encodeURIComponent quoteText) NoBody) st in
         case r of
           Resolved _ \<Rightarrow>
             App_fetchBooksWithQuotes P (fetchQuotes P
               (toast_success ''Quote deleted successfully'' st1))
         | Rejected \<Rightarrow> toast_error ''Failed to delete quote'' (console_error AxiosError st1)))"

definition App_init :: "'j platform \<Rightarrow> (string \<rightharpoonup> string) \<Rightarrow> 'j App" where
  "App_init P storage =
     \<lparr>books = empty_array P, quotes = empty_array P, selectedBook = None,
      showAddBook = False, showAddQuote = False, showEditBook = False,
      bookForm = \<lparr>title = [], status = ''To Read'', rating = 5\<rparr>,
      editBookForm = \<lparr>title = [], status = ''To Read'', rating = 5, originalTitle = []\<rparr>,
      editingBook = None, localStorage = storage, toasts = [], console = [],
      requests = [], pending = [], unhandled = [],
      currentUser = 1, App_quoteForm = \<lparr>qtext = [], discussion = []\<rparr>\<rparr>"

section \<open>A concrete platform for the examples\<close>

text \<open>
  The examples run on a platform whose JSON values are arrays of strings, the shape of the
  books-with-quotes collection. \<open>stringify_titles\<close> is \<open>JSON.stringify\<close> on arrays of
  strings that need no escape, and \<open>parse_titles\<close> reads exactly the texts that
  \<open>stringify_titles\<close> writes: a bracketed, comma-separated sequence of double-quoted
  strings with no backslash and no control character. On the texts of the examples it
  agrees with \<open>JSON.parse\<close>.
\<close>

fun join_commas :: "string list \<Rightarrow> string" where
  "join_commas [] = []"
| "join_commas [x] = x"
| "join_commas (x # y # zs) = x @ '','' @ join_commas (y # zs)"

definition stringify_titles :: "string list \<Rightarrow> string" where
  "stringify_titles xs =
     ''['' @ join_commas (map (\<lambda>s. [CHR 0x22] @ s @ [CHR 0x22]) xs) @ '']''"

datatype scan_mode = ExpectItem | InString | AfterItem

fun scan_titles :: "scan_mode \<Rightarrow> string list \<Rightarrow> string \<Rightarrow> string \<Rightarrow> string list option" where
  "scan_titles mode items cur [] = None"
| "scan_titles ExpectItem items cur (c # cs) =
     (if c = CHR 0x22 then scan_titles InString items [] cs else None)"
| "scan_titles InString items cur (c # cs) =
     (if c = CHR 0x22 then scan_titles AfterItem (items @ [rev cur]) [] cs
      else if c = CHR 0x5C \<or> of_char c < (32 :: nat) then None
      else scan_titles InString items (c # cur) cs)"
| "scan_titles AfterItem items cur (c # cs) =
     (if c = CHR '','' then scan_titles ExpectItem items [] cs
      else if c = CHR '']'' \<and> cs = [] then Some items
      else None)"

definition parse_titles :: "string \<Rightarrow> string list option" where
  "parse_titles s =
     (if s = ''[]'' then Some []
      else case s of
             [] \<Rightarrow> None
           | c # cs \<Rightarrow> if c = CHR ''['' then scan_titles ExpectItem [] [] cs else None)"

definition demo :: "string list platform" where
  "demo = \<lparr>BACKEND_URL = ''http://localhost:8000'', JSON_stringify = stringify_titles,
           JSON_parse = parse_titles, empty_array = []\<rparr>"

text \<open>States and runs of the examples.\<close>

definition library :: "string list app" where
  "library =
     (init demo Map.empty)
       \<lparr>books := [''Dune'', ''Emma''], quotes := [''Fear is the mind-killer''],
        bookForm := \<lparr>title = ''Ulysses'', status = ''To Read'', rating = 8.5\<rparr>,
        booksWithQuotes := [''Dune''],
        quoteForm := \<lparr>qtext = ''Call me Ishmael'', discussion = [], user_id = 2\<rparr>\<rparr>"

definition App_library :: "string list App" where
  "App_library =
     (App_init demo Map.empty)
       \<lparr>books := [''Emma''],
        bookForm := \<lparr>title = ''Dune'', status = ''To Read'', rating = 8.5\<rparr>,
        App_quoteForm := \<lparr>qtext = ''Call me Ishmael'', discussion = []\<rparr>\<rparr>"

text \<open>A quote form whose text is a space, a no-break space and a line feed.\<close>

definition blank_form :: "string list app" where
  "blank_form =
     (init demo Map.empty)
       \<lparr>quoteForm := \<lparr>qtext = [CHR 0x20, CHR 0xC2, CHR 0xA0, CHR 0x0A], discussion = [],
                     user_id = 1\<rparr>\<rparr>"

definition App_blank_form :: "string list App" where
  "App_blank_form =
     (App_init demo Map.empty)
       \<lparr>App_quoteForm := \<lparr>qtext = [CHR 0x20, CHR 0xC2, CHR 0xA0, CHR 0x0A], discussion = []\<rparr>\<rparr>"



definition first_load :: "string list mounted" where
  "first_load =
     run [Settled BwqPromise (Resolved [''Dune'']),
          Settled BooksPromise (Resolved [''Dune'', ''Emma'']),
          Settled QuotesPromise (Resolved [''Fear is the mind-killer''])]
       (loadAll demo (init demo Map.empty))"

section \<open>Frame lemmas\<close>

lemmas effect_defs = toast_error_def toast_success_def console_error_def axios_def

lemmas mutation_defs = addBook_def updateBook_def submitEditBook_def deleteBook_def addQuote_def
  updateQuoteDiscussion_def deleteQuote_def fetchBooks_def fetchQuotes_def
  fetchBooksWithQuotes_def

lemmas load_defs = step_def promise_all_def all_fulfilled_def loadAll_def loadAll_resume_def
  axios_def toast_error_def console_error_def

lemma finish_proj [simp]:
  "books (finish res) = books (fst res)"
  "quotes (finish res) = quotes (fst res)"
  "localStorage (finish res) = localStorage (fst res)"
  "toasts (finish res) = toasts (fst res)"
  "console (finish res) = console (fst res)"
  "requests (finish res) = requests (fst res)"
  "pending (finish res) = pending (fst res)"
  "core.more (finish res) = core.more (fst res)"
  by (simp_all add: finish_def split: completion.splits)

lemma finish_proj_app [simp]:
  "booksWithQuotes (finish res) = booksWithQuotes (fst res)"
  "loading (finish res) = loading (fst res)"
  by (simp_all add: finish_def split: completion.splits)

lemma fetchBooks_resume_frame [simp]:
  "quotes (fst (fetchBooks_resume P r st)) = quotes st"
  "requests (fst (fetchBooks_resume P r st)) = requests st"
  "pending (fst (fetchBooks_resume P r st)) = pending st"
  "core.more (fst (fetchBooks_resume P r st)) = core.more st"
  "k \<noteq> ''books'' \<Longrightarrow> localStorage (fst (fetchBooks_resume P r st)) k = localStorage st k"
  by (simp_all add: fetchBooks_resume_def effect_defs Let_def split: outcome.splits option.splits)

lemma fetchQuotes_resume_frame [simp]:
  "books (fst (fetchQuotes_resume P r st)) = books st"
  "requests (fst (fetchQuotes_resume P r st)) = requests st"
  "pending (fst (fetchQuotes_resume P r st)) = pending st"
  "core.more (fst (fetchQuotes_resume P r st)) = core.more st"
  "k \<noteq> ''quotes'' \<Longrightarrow> localStorage (fst (fetchQuotes_resume P r st)) k = localStorage st k"
  by (simp_all add: fetchQuotes_resume_def effect_defs Let_def split: outcome.splits option.splits)

lemma fetchBooksWithQuotes_resume_frame [simp]:
  "books (fst (fetchBooksWithQuotes_resume P r st)) = books st"
  "quotes (fst (fetchBooksWithQuotes_resume P r st)) = quotes st"
  "requests (fst (fetchBooksWithQuotes_resume P r st)) = requests st"
  "pending (fst (fetchBooksWithQuotes_resume P r st)) = pending st"
  "loading (fst (fetchBooksWithQuotes_resume P r st)) = loading st"
  "k \<noteq> ''booksWithQuotes'' \<Longrightarrow>
     localStorage (fst (fetchBooksWithQuotes_resume P r st)) k = localStorage st k"
  by (simp_all add: fetchBooksWithQuotes_resume_def effect_defs Let_def
      split: outcome.splits option.splits)

lemma fetch_resume_frame_app [simp]:
  "booksWithQuotes (fst (fetchBooks_resume P r st)) = booksWithQuotes st"
  "loading (fst (fetchBooks_resume P r st)) = loading st"
  "booksWithQuotes (fst (fetchQuotes_resume P r st)) = booksWithQuotes st"
  "loading (fst (fetchQuotes_resume P r st)) = loading st"
  by (simp_all add: fetchBooks_resume_def fetchQuotes_resume_def effect_defs Let_def
      split: outcome.splits option.splits)

lemma App_fetchBooksWithQuotes_resume_frame [simp]:
  "books (fst (App_fetchBooksWithQuotes_resume P r st)) = books st"
  "quotes (fst (App_fetchBooksWithQuotes_resume P r st)) = quotes st"
  "requests (fst (App_fetchBooksWithQuotes_resume P r st)) = requests st"
  "pending (fst (App_fetchBooksWithQuotes_resume P r st)) = pending st"
  "localStorage (fst (App_fetchBooksWithQuotes_resume P r st)) = localStorage st"
  by (simp_all add: App_fetchBooksWithQuotes_resume_def effect_defs split: outcome.splits)

text \<open>
  Settling a fetch call issues no request, starts no other fetch, and touches no
  collection and no cache entry besides its own.
\<close>

lemma settle_frame:
  "requests (settle P t r st) = requests st"
  "loading (settle P t r st) = loading st"
  "filter (\<lambda>k. k \<noteq> t) (pending (settle P t r st)) = filter (\<lambda>k. k \<noteq> t) (pending st)"
  "t \<noteq> FetchBooks \<Longrightarrow> books (settle P t r st) = books st"
  "t \<noteq> FetchQuotes \<Longrightarrow> quotes (settle P t r st) = quotes st"
  "t \<noteq> FetchBooksWithQuotes \<Longrightarrow> booksWithQuotes (settle P t r st) = booksWithQuotes st"
  "t \<noteq> FetchBooks \<Longrightarrow> localStorage (settle P t r st) ''books'' = localStorage st ''books''"
  "t \<noteq> FetchQuotes \<Longrightarrow> localStorage (settle P t r st) ''quotes'' = localStorage st ''quotes''"
  "t \<noteq> FetchBooksWithQuotes \<Longrightarrow>
     localStorage (settle P t r st) ''booksWithQuotes'' = localStorage st ''booksWithQuotes''"
  by (cases t; simp add: settle_def filter_remove1)+

lemma App_settle_frame:
  "requests (App_settle P t r st) = requests st"
  "filter (\<lambda>k. k \<noteq> t) (pending (App_settle P t r st)) = filter (\<lambda>k. k \<noteq> t) (pending st)"
  "t \<noteq> FetchBooks \<Longrightarrow> books (App_settle P t r st) = books st"
  "t \<noteq> FetchQuotes \<Longrightarrow> quotes (App_settle P t r st) = quotes st"
  "t \<noteq> FetchBooks \<Longrightarrow> localStorage (App_settle P t r st) ''books'' = localStorage st ''books''"
  "t \<noteq> FetchQuotes \<Longrightarrow> localStorage (App_settle P t r st) ''quotes'' = localStorage st ''quotes''"
  by (cases t; simp add: App_settle_def filter_remove1)+

section \<open>The initial load as a transition system\<close>

lemma loadAll_resume_cancelled [simp]: "loadAll_resume True r st = st"
  by (simp add: loadAll_resume_def split: outcome.splits)

lemma step_cancelled: "cancelled m \<Longrightarrow> view (step ev m) = view m \<and> cancelled (step ev m)"
  by (simp add: step_def split: event.split all_promise.split option.split)

lemma run_cancelled: "cancelled m \<Longrightarrow> view (run evs m) = view m"
  by (induction evs arbitrary: m) (simp_all add: step_cancelled)

lemma step_Done: "barrier m = Done \<Longrightarrow> barrier (step ev m) = Done \<and> view (step ev m) = view m"
  by (cases ev) (simp_all add: step_def)

lemma run_Done: "barrier m = Done \<Longrightarrow> barrier (run evs m) = Done \<and> view (run evs m) = view m"
  by (induction evs arbitrary: m) (simp_all add: step_Done)

lemma step_Done_or_same: "barrier (step ev m) = Done \<or> view (step ev m) = view m"
  by (simp add: step_def split: event.split all_promise.split option.split)

text \<open>While \<open>Promise.all\<close> has not settled, no event has changed what the view shows.\<close>

lemma run_waiting: "barrier (run evs m) \<noteq> Done \<Longrightarrow> view (run evs m) = view m"
proof (induction evs arbitrary: m)
  case Nil
  then show ?case by simp
next
  case (Cons ev evs)
  from Cons.prems have later: "barrier (run evs (step ev m)) \<noteq> Done" by simp
  then have "barrier (step ev m) \<noteq> Done" using run_Done by blast
  then have "view (step ev m) = view m" using step_Done_or_same [of ev m] by blast
  with Cons.IH [OF later] show ?case by simp
qed

lemma run_append: "run (xs @ ys) m = run ys (run xs m)"
  by (induction xs arbitrary: m) simp_all

lemma run_teardown: "view (run (Teardown # evs) m) = view m"
  by (simp add: run_cancelled step_def)

lemma loadAll_resume_storage [simp]: "localStorage (loadAll_resume c r st) = localStorage st"
  by (simp add: loadAll_resume_def toast_error_def console_error_def
      split: outcome.splits prod.splits)

lemma step_storage: "localStorage (view (step ev m)) = localStorage (view m)"
  by (simp add: step_def split: event.split all_promise.split option.split)

text \<open>The initial load never writes to the persistent storage, whatever happens.\<close>

lemma initial_load_never_writes_cache:
  "localStorage (view (run evs (loadAll P st))) = localStorage st"
proof -
  have "localStorage (view (run evs m)) = localStorage (view m)" for m :: "'a mounted"
    by (induction evs arbitrary: m) (simp_all add: step_storage)
  then show ?thesis by (simp add: loadAll_def axios_def)
qed



section \<open>Selective refresh after a mutation\<close>

text \<open>
  Mutation-to-refresh table of the revision with the books-with-quotes collection: the
  fetch calls that each successful mutation leaves in flight.
\<close>

lemma refresh_table:
  fixes st :: "'j app"
  shows "trim (title (bookForm st)) \<noteq> [] \<Longrightarrow>
           pending (addBook P (Resolved d) st) = pending st @ [FetchBooks, FetchBooksWithQuotes]"
    and "pending (updateBook P t updates (Resolved d) st) =
           pending st @ [FetchBooks, FetchBooksWithQuotes]"
    and "trim (title (editBookForm st)) \<noteq> [] \<Longrightarrow>
           pending (submitEditBook P (Resolved d) st) =
             pending st @ [FetchBooks, FetchBooksWithQuotes]"
    and "pending (deleteBook P t True (Resolved d) st) = pending st @ [FetchBooks]"
    and "trim (qtext (quoteForm st)) \<noteq> [] \<Longrightarrow>
           pending (addQuote P (Resolved d) st) =
             pending st @ [FetchQuotes, FetchBooksWithQuotes]"
    and "pending (updateQuoteDiscussion P bookTitle quoteText disc (Resolved d) st) =
           pending st @ [FetchQuotes]"
    and "pending (deleteQuote P bookTitle quoteText True (Resolved d) st) =
           pending st @ [FetchQuotes, FetchBooksWithQuotes]"
  by (simp_all add: mutation_defs effect_defs)

text \<open>
  The same table for the revision in frontend/src/App.js: Add Book and Update Book start
  the fetch of the books only.
\<close>

lemma App_refresh_table:
  fixes st :: "'j App"
  shows "trim (title (bookForm st)) \<noteq> [] \<Longrightarrow>
           pending (App_addBook P (Resolved d) st) = pending st @ [FetchBooks]"
    and "pending (App_updateBook P t updates (Resolved d) st) = pending st @ [FetchBooks]"
    and "pending (deleteBook P t True (Resolved d) st) = pending st @ [FetchBooks]"
    and "trim (qtext (App_quoteForm st)) \<noteq> [] \<Longrightarrow>
           pending (App_addQuote P (Resolved d) st) =
             pending st @ [FetchQuotes, FetchBooksWithQuotes]"
    and "pending (updateQuoteDiscussion P bookTitle quoteText disc (Resolved d) st) =
           pending st @ [FetchQuotes]"
    and "pending (App_deleteQuote P bookTitle quoteText True (Resolved d) st) =
           pending st @ [FetchQuotes, FetchBooksWithQuotes]"
  by (simp_all add: App_addBook_def App_updateBook_def App_addQuote_def App_deleteQuote_def
        deleteBook_def updateQuoteDiscussion_def fetchBooks_def fetchQuotes_def
        App_fetchBooksWithQuotes_def effect_defs)

text \<open>
  C1. A Delete Book whose request succeeds issues the DELETE and then one GET of the books,
  and leaves exactly one fetch of the books in flight. The quotes collection, the
  books-with-quotes collection and their cache entries are what they were before the
  call, both when the mutation returns and after the re-fetch of the books has settled,
  whatever its outcome \<open>r\<close>. This holds in both revisions of the component; the one in
  frontend/src/App.js has no books-with-quotes collection.
\<close>

theorem deleteBook_refreshes_books_only:
  fixes st :: "'j app" and st0 :: "'j App"
  shows
  "(let st1 = deleteBook P t True (Resolved d) st; st2 = settle P FetchBooks r st1 in
      requests st1 = requests st @
        [Request DELETE (API P @ ''/books/'' @ encodeURIComponent t) NoBody,
         Request GET (API P @ ''/books'') NoBody]
    \<and> pending st1 = pending st @ [FetchBooks]
    \<and> quotes st1 = quotes st \<and> booksWithQuotes st1 = booksWithQuotes st
    \<and> localStorage st1 = localStorage st
    \<and> requests st2 = requests st1
    \<and> filter (\<lambda>k. k \<noteq> FetchBooks) (pending st2) = filter (\<lambda>k. k \<noteq> FetchBooks) (pending st)
    \<and> quotes st2 = quotes st \<and> booksWithQuotes st2 = booksWithQuotes st
    \<and> localStorage st2 ''quotes'' = localStorage st ''quotes''
    \<and> localStorage st2 ''booksWithQuotes'' = localStorage st ''booksWithQuotes'')
   \<and>
   (let s1 = deleteBook P t True (Resolved d) st0; s2 = App_settle P FetchBooks r s1 in
      requests s1 = requests st0 @
        [Request DELETE (API P @ ''/books/'' @ encodeURIComponent t) NoBody,
         Request GET (API P @ ''/books'') NoBody]
    \<and> pending s1 = pending st0 @ [FetchBooks]
    \<and> quotes s1 = quotes st0
    \<and> requests s2 = requests s1
    \<and> filter (\<lambda>k. k \<noteq> FetchBooks) (pending s2) = filter (\<lambda>k. k \<noteq> FetchBooks) (pending st0)
    \<and> quotes s2 = quotes st0
    \<and> localStorage s2 ''quotes'' = localStorage st0 ''quotes'')"
  by (simp add: Let_def settle_frame App_settle_frame)
     (simp add: deleteBook_def fetchBooks_def effect_defs)

theorem deleteBook_refreshes_books_only_witness:
  "quotes (settle demo FetchBooks (Resolved [''Emma''])
     (deleteBook demo ''Dune'' True (Resolved []) library)) = [''Fear is the mind-killer'']
   \<and> booksWithQuotes (settle demo FetchBooks (Resolved [''Emma''])
     (deleteBook demo ''Dune'' True (Resolved []) library)) = [''Dune'']
   \<and> quotes (App_settle demo FetchBooks (Resolved [''Emma''])
     (deleteBook demo ''Dune'' True (Resolved []) App_library)) = []"
  using deleteBook_refreshes_books_only [where P = demo and t = "''Dune''" and d = "[]"
          and st = library and r = "Resolved [''Emma'']" and ?st0.0 = App_library]
  by (simp add: Let_def library_def App_library_def init_def App_init_def demo_def)

text \<open>
  C3. Each successful mutation starts exactly the refreshes of its row of the table, in
  this order, right after its write request, and nothing else: Add Book and Update Book
  (a change of status or rating, or the edit form with its new title) issue the GET of the
  books and the GET of books-with-quotes; Add Quote and Delete Quote issue the GET of the
  quotes and the GET of books-with-quotes; Delete Book issues the GET of the books only and
  Update Quote discussion the GET of the quotes only. A refresh that settles, with any
  outcome, issues no request and starts no further refresh: it only leaves the calls in
  flight.
\<close>

theorem mutation_refresh_table:
  fixes st :: "'j app"
  shows
  "(trim (title (bookForm st)) \<noteq> [] \<longrightarrow>
      pending (addBook P (Resolved d) st) = pending st @ [FetchBooks, FetchBooksWithQuotes]
      \<and> requests (addBook P (Resolved d) st) = requests st @
          [Request POST (API P @ ''/books'') (BookBody (bookForm st)),
           Request GET (API P @ ''/books'') NoBody,
           Request GET (API P @ ''/books-with-quotes'') NoBody])
   \<and> pending (updateBook P t updates (Resolved d) st) =
        pending st @ [FetchBooks, FetchBooksWithQuotes]
   \<and> requests (updateBook P t updates (Resolved d) st) = requests st @
        [Request PUT (API P @ ''/books/'' @ encodeURIComponent t) (UpdatesBody updates),
         Request GET (API P @ ''/books'') NoBody,
         Request GET (API P @ ''/books-with-quotes'') NoBody]
   \<and> (trim (title (editBookForm st)) \<noteq> [] \<longrightarrow>
      pending (submitEditBook P (Resolved d) st) =
        pending st @ [FetchBooks, FetchBooksWithQuotes]
      \<and> requests (submitEditBook P (Resolved d) st) = requests st @
          [Request PUT (API P @ ''/books/'' @ encodeURIComponent (originalTitle (editBookForm st)))
             (UpdatesBody \<lparr>new_title = Some (title (editBookForm st)),
                           new_status = Some (status (editBookForm st)),
                           new_rating = Some (rating (editBookForm st))\<rparr>),
           Request GET (API P @ ''/books'') NoBody,
           Request GET (API P @ ''/books-with-quotes'') NoBody])
   \<and> pending (deleteBook P t True (Resolved d) st) = pending st @ [FetchBooks]
   \<and> requests (deleteBook P t True (Resolved d) st) = requests st @
        [Request DELETE (API P @ ''/books/'' @ encodeURIComponent t) NoBody,
         Request GET (API P @ ''/books'') NoBody]
   \<and> (trim (qtext (quoteForm st)) \<noteq> [] \<longrightarrow>
      pending (addQuote P (Resolved d) st) = pending st @ [FetchQuotes, FetchBooksWithQuotes]
      \<and> requests (addQuote P (Resolved d) st) = requests st @
          [Request POST (API P @ ''/quotes'')
             (QuoteBody (selectedBook st) (qtext (quoteForm st)) (user_id (quoteForm st))
                (discussion (quoteForm st))),
           Request GET (API P @ ''/quotes'') NoBody,
           Request GET (API P @ ''/books-with-quotes'') NoBody])
   \<and> pending (updateQuoteDiscussion P bookTitle quoteText disc (Resolved d) st) =
        pending st @ [FetchQuotes]
   \<and> requests (updateQuoteDiscussion P bookTitle quoteText disc (Resolved d) st) =
        requests st @
        [Request PUT (API P @ ''/quotes/'' @ encodeURIComponent bookTitle @ ''/''
           @ encodeURIComponent quoteText) (DiscussionBody disc),
         Request GET (API P @ ''/quotes'') NoBody]
   \<and> pending (deleteQuote P bookTitle quoteText True (Resolved d) st) =
        pending st @ [FetchQuotes, FetchBooksWithQuotes]
   \<and> requests (deleteQuote P bookTitle quoteText True (Resolved d) st) = requests st @
        [Request DELETE (API P @ ''/quotes/'' @ encodeURIComponent bookTitle @ ''/''
           @ encodeURIComponent quoteText) NoBody,
         Request GET (API P @ ''/quotes'') NoBody,
         Request GET (API P @ ''/books-with-quotes'') NoBody]
   \<and> requests (settle P k r st) = requests st
   \<and> pending (settle P k r st) = remove1 k (pending st)"
proof -
  have quiet: "requests (settle P k r st) = requests st"
    by (rule settle_frame)
  have fewer: "pending (settle P k r st) = remove1 k (pending st)"
    by (cases k; simp add: settle_def remove1_idem)
  show ?thesis
    unfolding quiet fewer by (simp add: mutation_defs effect_defs)
qed

theorem mutation_refresh_table_witness:
  "trim (title (bookForm library)) = ''Ulysses''
   \<and> trim (qtext (quoteForm library)) = ''Call me Ishmael''
   \<and> pending (addBook demo (Resolved []) library) = [FetchBooks, FetchBooksWithQuotes]
   \<and> pending (updateBook demo ''Emma''
        \<lparr>new_title = None, new_status = Some ''Reading'', new_rating = None\<rparr> (Resolved [])
        library) = [FetchBooks, FetchBooksWithQuotes]
   \<and> pending (addQuote demo (Resolved []) library) = [FetchQuotes, FetchBooksWithQuotes]
   \<and> pending (deleteQuote demo ''Dune'' ''Fear is the mind-killer'' True (Resolved []) library)
       = [FetchQuotes, FetchBooksWithQuotes]
   \<and> pending (deleteBook demo ''Dune'' True (Resolved []) library) = [FetchBooks]
   \<and> pending (updateQuoteDiscussion demo ''Dune'' ''Fear is the mind-killer'' ''Litany''
        (Resolved []) library) = [FetchQuotes]
   \<and> requests (settle demo FetchBooks (Resolved [''Emma'']) library) = []"
proof -
  have valid: "trim (title (bookForm library)) = ''Ulysses''"
    "trim (qtext (quoteForm library)) = ''Call me Ishmael''"
    by (simp_all add: library_def trim_def white_space_def)
  show ?thesis
    using valid mutation_refresh_table [where P = demo and st = library and d = "[]"
        and t = "''Emma''"
        and updates = "\<lparr>new_title = None, new_status = Some ''Reading'', new_rating = None\<rparr>"
        and bookTitle = "''Dune''" and quoteText = "''Fear is the mind-killer''"
        and disc = "''Litany''" and k = FetchBooks and r = "Resolved [''Emma'']"]
      mutation_refresh_table [where P = demo and st = library and d = "[]"
        and t = "''Dune''"
        and updates = "\<lparr>new_title = None, new_status = Some ''Reading'', new_rating = None\<rparr>"
        and bookTitle = "''Dune''" and quoteText = "''Fear is the mind-killer''"
        and disc = "''Litany''" and k = FetchBooks and r = "Resolved [''Emma'']"]
    by (simp add: library_def init_def)
qed

text \<open>
  C4. An Update Quote discussion whose request succeeds issues the PUT and then one GET of
  the quotes, and leaves exactly one fetch of the quotes in flight. The books collection,
  the books-with-quotes collection and their cache entries are what they were before the
  call, both when the mutation returns and after the re-fetch of the quotes has settled,
  whatever its outcome \<open>r\<close>.
\<close>

theorem updateQuoteDiscussion_refreshes_quotes_only:
  fixes st :: "'j app"
  shows
  "(let st1 = updateQuoteDiscussion P bookTitle quoteText disc (Resolved d) st;
        st2 = settle P FetchQuotes r st1 in
      requests st1 = requests st @
        [Request PUT (API P @ ''/quotes/'' @ encodeURIComponent bookTitle @ ''/''
           @ encodeURIComponent quoteText) (DiscussionBody disc),
         Request GET (API P @ ''/quotes'') NoBody]
    \<and> pending st1 = pending st @ [FetchQuotes]
    \<and> books st1 = books st \<and> booksWithQuotes st1 = booksWithQuotes st
    \<and> localStorage st1 = localStorage st
    \<and> requests st2 = requests st1
    \<and> filter (\<lambda>k. k \<noteq> FetchQuotes) (pending st2) = filter (\<lambda>k. k \<noteq> FetchQuotes) (pending st)
    \<and> books st2 = books st \<and> booksWithQuotes st2 = booksWithQuotes st
    \<and> localStorage st2 ''books'' = localStorage st ''books''
    \<and> localStorage st2 ''booksWithQuotes'' = localStorage st ''booksWithQuotes'')"
  by (simp add: Let_def settle_frame) (simp add: mutation_defs effect_defs)

theorem updateQuoteDiscussion_refreshes_quotes_only_witness:
  "books (settle demo FetchQuotes (Resolved [''Fear is the mind-killer''])
     (updateQuoteDiscussion demo ''Dune'' ''Fear is the mind-killer'' ''Litany'' (Resolved [])
        library)) = [''Dune'', ''Emma'']
   \<and> booksWithQuotes (settle demo FetchQuotes (Resolved [''Fear is the mind-killer''])
     (updateQuoteDiscussion demo ''Dune'' ''Fear is the mind-killer'' ''Litany'' (Resolved [])
        library)) = [''Dune'']"
  using updateQuoteDiscussion_refreshes_quotes_only [where P = demo and bookTitle = "''Dune''"
          and quoteText = "''Fear is the mind-killer''" and disc = "''Litany''" and d = "[]"
          and st = library and r = "Resolved [''Fear is the mind-killer'']"]
  by (simp add: Let_def library_def init_def demo_def)

text \<open>
  C7. A mutation whose write request fails changes nothing but three logs: the one write
  request it issued, the error on the console and one notification that names the failed
  operation. So no fetch is started, no second request is issued, and the three
  collections, the cache and the forms are what they were. For Add Book and Add Quote the
  form has passed validation, for the two deletions the user has confirmed.
\<close>

theorem failed_mutation_changes_nothing:
  fixes st :: "'j app"
  shows
  "(trim (title (bookForm st)) \<noteq> [] \<longrightarrow>
      addBook P Rejected st =
        st\<lparr>toasts := toasts st @ [Toast_error ''Failed to add book''],
           console := console st @ [AxiosError],
           requests := requests st @ [Request POST (API P @ ''/books'') (BookBody (bookForm st))]\<rparr>)
   \<and> updateBook P t updates Rejected st =
        st\<lparr>toasts := toasts st @ [Toast_error ''Failed to update book''],
           console := console st @ [AxiosError],
           requests := requests st @
             [Request PUT (API P @ ''/books/'' @ encodeURIComponent t) (UpdatesBody updates)]\<rparr>
   \<and> deleteBook P t True Rejected st =
        st\<lparr>toasts := toasts st @ [Toast_error ''Failed to delete book''],
           console := console st @ [AxiosError],
           requests := requests st @
             [Request DELETE (API P @ ''/books/'' @ encodeURIComponent t) NoBody]\<rparr>
   \<and> (trim (qtext (quoteForm st)) \<noteq> [] \<longrightarrow>
      addQuote P Rejected st =
        st\<lparr>toasts := toasts st @ [Toast_error ''Failed to add quote''],
           console := console st @ [AxiosError],
           requests := requests st @
             [Request POST (API P @ ''/quotes'')
                (QuoteBody (selectedBook st) (qtext (quoteForm st)) (user_id (quoteForm st))
                   (discussion (quoteForm st)))]\<rparr>)
   \<and> updateQuoteDiscussion P bookTitle quoteText disc Rejected st =
        st\<lparr>toasts := toasts st @ [Toast_error ''Failed to update discussion''],
           console := console st @ [AxiosError],
           requests := requests st @
             [Request PUT (API P @ ''/quotes/'' @ encodeURIComponent bookTitle @ ''/''
                @ encodeURIComponent quoteText) (DiscussionBody disc)]\<rparr>
   \<and> deleteQuote P bookTitle quoteText True Rejected st =
        st\<lparr>toasts := toasts st @ [Toast_error ''Failed to delete quote''],
           console := console st @ [AxiosError],
           requests := requests st @
             [Request DELETE (API P @ ''/quotes/'' @ encodeURIComponent bookTitle @ ''/''
                @ encodeURIComponent quoteText) NoBody]\<rparr>"
  by (simp add: mutation_defs effect_defs)

theorem failed_mutation_changes_nothing_witness:
  "trim (title (bookForm library)) \<noteq> [] \<and> trim (qtext (quoteForm library)) \<noteq> []
   \<and> books (addBook demo Rejected library) = [''Dune'', ''Emma'']
   \<and> pending (addBook demo Rejected library) = []
   \<and> toasts (addBook demo Rejected library) = [Toast_error ''Failed to add book'']
   \<and> quotes (addQuote demo Rejected library) = [''Fear is the mind-killer'']
   \<and> pending (addQuote demo Rejected library) = []
   \<and> toasts (addQuote demo Rejected library) = [Toast_error ''Failed to add quote'']
   \<and> booksWithQuotes (deleteQuote demo ''Dune'' ''Fear is the mind-killer'' True Rejected library)
       = [''Dune'']"
proof -
  have valid: "trim (title (bookForm library)) \<noteq> []" "trim (qtext (quoteForm library)) \<noteq> []"
    by (simp_all add: library_def trim_def white_space_def)
  show ?thesis
    using valid failed_mutation_changes_nothing [where P = demo and st = library
        and bookTitle = "''Dune''" and quoteText = "''Fear is the mind-killer''"]
    by (simp add: library_def init_def)
qed


section \<open>Properties of the initial load\<close>




text \<open>
  C5. If the cleanup of the effect runs while \<open>Promise.all\<close> of the initial load is
  pending, then whatever settles afterwards changes nothing: the view is what \<open>loadAll\<close>
  left when it started, so the three collections, the cache and the notifications are
  what they were at initialisation.
\<close>

theorem teardown_discards_initial_load:
  assumes "barrier (run before (loadAll P st)) \<noteq> Done"
  shows "view (run (before @ Teardown # after) (loadAll P st)) = view (loadAll P st)
       \<and> books (view (run (before @ Teardown # after) (loadAll P st))) = books st
       \<and> quotes (view (run (before @ Teardown # after) (loadAll P st))) = quotes st
       \<and> booksWithQuotes (view (run (before @ Teardown # after) (loadAll P st)))
           = booksWithQuotes st
       \<and> localStorage (view (run (before @ Teardown # after) (loadAll P st))) = localStorage st
       \<and> toasts (view (run (before @ Teardown # after) (loadAll P st))) = toasts st"
proof -
  have "view (run (before @ Teardown # after) (loadAll P st)) = view (run before (loadAll P st))"
    unfolding run_append by (rule run_teardown)
  also have "\<dots> = view (loadAll P st)" using assms by (rule run_waiting)
  finally have eq: "view (run (before @ Teardown # after) (loadAll P st)) = view (loadAll P st)" .
  show ?thesis unfolding eq by (simp add: loadAll_def axios_def)
qed

theorem teardown_discards_initial_load_witness:
  "barrier (run [Settled BooksPromise (Resolved [''Emma''])] (loadAll demo library)) \<noteq> Done
   \<and> books (view (run ([Settled BooksPromise (Resolved [''Emma''])] @ Teardown #
        [Settled QuotesPromise (Resolved []), Settled BwqPromise Rejected])
        (loadAll demo library))) = [''Dune'', ''Emma'']
   \<and> toasts (view (run ([Settled BooksPromise (Resolved [''Emma''])] @ Teardown #
        [Settled QuotesPromise (Resolved []), Settled BwqPromise Rejected])
        (loadAll demo library))) = []"
proof -
  have pending: "barrier (run [Settled BooksPromise (Resolved [''Emma''])] (loadAll demo library))
      \<noteq> Done"
    by (simp add: load_defs)
  show ?thesis
    using pending teardown_discards_initial_load [OF pending,
        of "[Settled QuotesPromise (Resolved []), Settled BwqPromise Rejected]"]
    by (simp add: library_def init_def loadAll_def axios_def)
qed

text \<open>
  C8. The three collections arrive at the first load, and the cache is empty before it.
  After the load the three collections are shown and the loading flag is down, but no
  snapshot has been written: the three cache keys are still absent.
\<close>

theorem initial_load_writes_no_snapshot:
  "books (view first_load) = [''Dune'', ''Emma'']
   \<and> quotes (view first_load) = [''Fear is the mind-killer'']
   \<and> booksWithQuotes (view first_load) = [''Dune'']
   \<and> loading (view first_load) = False
   \<and> localStorage (view first_load) ''books'' = None
   \<and> localStorage (view first_load) ''quotes'' = None
   \<and> localStorage (view first_load) ''booksWithQuotes'' = None"
  by (simp add: first_load_def load_defs init_def)

text \<open>
  The fetch functions themselves do what the sentence says: on a response each one
  replaces its collection by the data and stores the serialised data under its key.
\<close>

lemma successful_fetch_writes_snapshot:
  fixes st :: "'j app"
  shows "fetchBooks_resume P (Resolved d) st =
           (st\<lparr>books := d,
               localStorage := (localStorage st)(''books'' \<mapsto> JSON_stringify P d)\<rparr>, Returned)"
    and "fetchQuotes_resume P (Resolved d) st =
           (st\<lparr>quotes := d,
               localStorage := (localStorage st)(''quotes'' \<mapsto> JSON_stringify P d)\<rparr>, Returned)"
    and "fetchBooksWithQuotes_resume P (Resolved d) st =
           (st\<lparr>booksWithQuotes := d,
               localStorage := (localStorage st)(''booksWithQuotes'' \<mapsto> JSON_stringify P d)\<rparr>,
            Returned)"
  by (simp_all add: fetchBooks_resume_def fetchQuotes_resume_def fetchBooksWithQuotes_resume_def)


section \<open>Falling back to the cache\<close>

text \<open>
  C6. A fetch of one collection whose request fails logs the error and then reads the
  cache entry of the collection. If the entry is absent or empty, the collection keeps its
  value, one notification that names the collection is raised and the function returns.
  If the entry is a snapshot \<open>s\<close>, a non-empty text that \<open>JSON.parse\<close> reads as \<open>v\<close>, the
  collection becomes \<open>v\<close>, the notification is raised and the function returns. If the
  entry is a non-empty text that \<open>JSON.parse\<close> rejects, the collection keeps its value,
  but the SyntaxError leaves the \<open>catch\<close> block: the function throws and the notification
  is not raised. Nothing else changes in any of the three cases.
\<close>

theorem failed_fetch_falls_back:
  fixes st :: "'j app"
  shows
  "(localStorage st ''books'' = None \<or> localStorage st ''books'' = Some [] \<longrightarrow>
      fetchBooks_resume P Rejected st =
        (st\<lparr>toasts := toasts st @ [Toast_error ''Failed to fetch books''],
            console := console st @ [AxiosError]\<rparr>, Returned))
   \<and> (localStorage st ''books'' = Some s \<and> s \<noteq> [] \<and> JSON_parse P s = Some v \<longrightarrow>
      fetchBooks_resume P Rejected st =
        (st\<lparr>books := v, toasts := toasts st @ [Toast_error ''Failed to fetch books''],
            console := console st @ [AxiosError]\<rparr>, Returned))
   \<and> (localStorage st ''books'' = Some s \<and> s \<noteq> [] \<and> JSON_parse P s = None \<longrightarrow>
      fetchBooks_resume P Rejected st =
        (st\<lparr>console := console st @ [AxiosError]\<rparr>, Threw SyntaxError))
   \<and> (localStorage st ''quotes'' = None \<or> localStorage st ''quotes'' = Some [] \<longrightarrow>
      fetchQuotes_resume P Rejected st =
        (st\<lparr>toasts := toasts st @ [Toast_error ''Failed to fetch quotes''],
            console := console st @ [AxiosError]\<rparr>, Returned))
   \<and> (localStorage st ''quotes'' = Some s \<and> s \<noteq> [] \<and> JSON_parse P s = Some v \<longrightarrow>
      fetchQuotes_resume P Rejected st =
        (st\<lparr>quotes := v, toasts := toasts st @ [Toast_error ''Failed to fetch quotes''],
            console := console st @ [AxiosError]\<rparr>, Returned))
   \<and> (localStorage st ''quotes'' = Some s \<and> s \<noteq> [] \<and> JSON_parse P s = None \<longrightarrow>
      fetchQuotes_resume P Rejected st =
        (st\<lparr>console := console st @ [AxiosError]\<rparr>, Threw SyntaxError))
   \<and> (localStorage st ''booksWithQuotes'' = None
        \<or> localStorage st ''booksWithQuotes'' = Some [] \<longrightarrow>
      fetchBooksWithQuotes_resume P Rejected st =
        (st\<lparr>toasts := toasts st @ [Toast_error ''Failed to fetch books with quotes''],
            console := console st @ [AxiosError]\<rparr>, Returned))
   \<and> (localStorage st ''booksWithQuotes'' = Some s \<and> s \<noteq> [] \<and> JSON_parse P s = Some v \<longrightarrow>
      fetchBooksWithQuotes_resume P Rejected st =
        (st\<lparr>booksWithQuotes := v,
            toasts := toasts st @ [Toast_error ''Failed to fetch books with quotes''],
            console := console st @ [AxiosError]\<rparr>, Returned))
   \<and> (localStorage st ''booksWithQuotes'' = Some s \<and> s \<noteq> [] \<and> JSON_parse P s = None \<longrightarrow>
      fetchBooksWithQuotes_resume P Rejected st =
        (st\<lparr>console := console st @ [AxiosError]\<rparr>, Threw SyntaxError))"
  by (auto simp add: fetchBooks_resume_def fetchQuotes_resume_def
        fetchBooksWithQuotes_resume_def effect_defs)

theorem failed_fetch_falls_back_witness:
  "localStorage library ''books'' = None
   \<and> localStorage library ''quotes'' = None
   \<and> localStorage library ''booksWithQuotes'' = None
   \<and> books (fst (fetchBooks_resume demo Rejected library)) = [''Dune'', ''Emma'']
   \<and> snd (fetchBooks_resume demo Rejected library) = Returned
   \<and> toasts (fst (fetchBooks_resume demo Rejected library))
       = [Toast_error ''Failed to fetch books'']
   \<and> quotes (fst (fetchQuotes_resume demo Rejected library)) = [''Fear is the mind-killer'']
   \<and> booksWithQuotes (fst (fetchBooksWithQuotes_resume demo Rejected library)) = [''Dune'']
   \<and> localStorage (library\<lparr>localStorage := (\<lambda>k. Some (stringify_titles [''Emma'']))\<rparr>) ''quotes''
       = Some (stringify_titles [''Emma''])
   \<and> stringify_titles [''Emma''] \<noteq> []
   \<and> JSON_parse demo (stringify_titles [''Emma'']) = Some [''Emma'']
   \<and> books (fst (fetchBooks_resume demo Rejected
        (library\<lparr>localStorage := (\<lambda>k. Some (stringify_titles [''Emma'']))\<rparr>))) = [''Emma'']
   \<and> quotes (fst (fetchQuotes_resume demo Rejected
        (library\<lparr>localStorage := (\<lambda>k. Some (stringify_titles [''Emma'']))\<rparr>))) = [''Emma'']
   \<and> booksWithQuotes (fst (fetchBooksWithQuotes_resume demo Rejected
        (library\<lparr>localStorage := (\<lambda>k. Some (stringify_titles [''Emma'']))\<rparr>))) = [''Emma'']
   \<and> toasts (fst (fetchQuotes_resume demo Rejected
        (library\<lparr>localStorage := (\<lambda>k. Some (stringify_titles [''Emma'']))\<rparr>)))
       = [Toast_error ''Failed to fetch quotes'']
   \<and> JSON_parse demo ''<html>'' = None
   \<and> snd (fetchBooks_resume demo Rejected (library\<lparr>localStorage := (\<lambda>k. Some ''<html>'')\<rparr>))
       = Threw SyntaxError
   \<and> quotes (fst (fetchQuotes_resume demo Rejected
        (library\<lparr>localStorage := (\<lambda>k. Some ''<html>'')\<rparr>))) = [''Fear is the mind-killer'']
   \<and> toasts (fst (fetchBooksWithQuotes_resume demo Rejected
        (library\<lparr>localStorage := (\<lambda>k. Some ''<html>'')\<rparr>))) = []"
proof -
  have absent: "localStorage library ''books'' = None" "localStorage library ''quotes'' = None"
    "localStorage library ''booksWithQuotes'' = None"
    by (simp_all add: library_def init_def)
  have snapshot: "stringify_titles [''Emma''] \<noteq> []"
    "JSON_parse demo (stringify_titles [''Emma'']) = Some [''Emma'']"
    by (simp_all add: demo_def stringify_titles_def parse_titles_def)
  have corrupt: "JSON_parse demo ''<html>'' = None"
    by (simp add: demo_def parse_titles_def)
  show ?thesis
    using absent snapshot corrupt
      failed_fetch_falls_back [where P = demo and st = library
        and s = "stringify_titles [''Emma'']" and v = "[''Emma'']"]
      failed_fetch_falls_back [where P = demo
        and st = "library\<lparr>localStorage := (\<lambda>k. Some (stringify_titles [''Emma'']))\<rparr>"
        and s = "stringify_titles [''Emma'']" and v = "[''Emma'']"]
      failed_fetch_falls_back [where P = demo
        and st = "library\<lparr>localStorage := (\<lambda>k. Some ''<html>'')\<rparr>"
        and s = "''<html>''" and v = "[]"]
    by (simp add: library_def init_def)
qed

text \<open>
  Without the third case the statement fails. The text \<open><html>\<close> is cached under the key
  of the quotes and a re-fetch of the quotes is in flight; its request fails. The
  SyntaxError of \<open>JSON.parse\<close> becomes the rejection of a promise that nobody awaits, and
  no notification is raised.
\<close>

theorem failed_fetch_counterexample:
  "unhandled (settle demo FetchQuotes Rejected
     (fetchQuotes demo (init demo [''quotes'' \<mapsto> ''<html>'']))) = [SyntaxError]
   \<and> toasts (settle demo FetchQuotes Rejected
     (fetchQuotes demo (init demo [''quotes'' \<mapsto> ''<html>'']))) = []"
  by (simp add: settle_def finish_def fetchQuotes_def fetchQuotes_resume_def effect_defs
        init_def demo_def parse_titles_def)

text \<open>The fetch functions themselves: a successful one stores what a later failed one shows,
  on a platform whose \<open>JSON.parse\<close> reads back the non-empty text that \<open>JSON.stringify\<close>
  wrote for \<open>d\<close>.
\<close>

lemma fallback_restores_last_snapshot:
  fixes st :: "'j app"
  assumes "JSON_parse P (JSON_stringify P d) = Some d" and "JSON_stringify P d \<noteq> []"
  shows "books (fst (fetchBooks_resume P Rejected (fst (fetchBooks_resume P (Resolved d) st)))) = d"
    and "quotes (fst (fetchQuotes_resume P Rejected (fst (fetchQuotes_resume P (Resolved d) st)))) = d"
    and "booksWithQuotes (fst (fetchBooksWithQuotes_resume P Rejected
           (fst (fetchBooksWithQuotes_resume P (Resolved d) st)))) = d"
  using assms
  by (simp_all add: fetchBooks_resume_def fetchQuotes_resume_def
        fetchBooksWithQuotes_resume_def effect_defs)

text \<open>
  C9. Reading the cache in the fallback tolerates an absent entry and an empty one: the
  fetch function returns, the collection is unchanged and the notification that names the
  collection is raised. A non-empty entry that \<open>JSON.parse\<close> rejects is not tolerated:
  the SyntaxError leaves the \<open>catch\<close> block, so the fetch function throws. The
  collection is unchanged then, the error of the request is on the console, and no
  notification is raised.
\<close>

theorem corrupt_cache_entry_throws:
  fixes st :: "'j app"
  shows
  "(localStorage st ''books'' = None \<or> localStorage st ''books'' = Some [] \<longrightarrow>
      snd (fetchBooks_resume P Rejected st) = Returned
      \<and> books (fst (fetchBooks_resume P Rejected st)) = books st
      \<and> toasts (fst (fetchBooks_resume P Rejected st)) =
          toasts st @ [Toast_error ''Failed to fetch books''])
   \<and> (localStorage st ''quotes'' = None \<or> localStorage st ''quotes'' = Some [] \<longrightarrow>
      snd (fetchQuotes_resume P Rejected st) = Returned
      \<and> quotes (fst (fetchQuotes_resume P Rejected st)) = quotes st
      \<and> toasts (fst (fetchQuotes_resume P Rejected st)) =
          toasts st @ [Toast_error ''Failed to fetch quotes''])
   \<and> (localStorage st ''booksWithQuotes'' = None
        \<or> localStorage st ''booksWithQuotes'' = Some [] \<longrightarrow>
      snd (fetchBooksWithQuotes_resume P Rejected st) = Returned
      \<and> booksWithQuotes (fst (fetchBooksWithQuotes_resume P Rejected st)) = booksWithQuotes st
      \<and> toasts (fst (fetchBooksWithQuotes_resume P Rejected st)) =
          toasts st @ [Toast_error ''Failed to fetch books with quotes''])
   \<and> (localStorage st ''books'' = Some s \<and> s \<noteq> [] \<and> JSON_parse P s = None \<longrightarrow>
      fetchBooks_resume P Rejected st =
        (st\<lparr>console := console st @ [AxiosError]\<rparr>, Threw SyntaxError)
      \<and> books (fst (fetchBooks_resume P Rejected st)) = books st
      \<and> toasts (fst (fetchBooks_resume P Rejected st)) = toasts st)
   \<and> (localStorage st ''quotes'' = Some s \<and> s \<noteq> [] \<and> JSON_parse P s = None \<longrightarrow>
      fetchQuotes_resume P Rejected st =
        (st\<lparr>console := console st @ [AxiosError]\<rparr>, Threw SyntaxError)
      \<and> quotes (fst (fetchQuotes_resume P Rejected st)) = quotes st
      \<and> toasts (fst (fetchQuotes_resume P Rejected st)) = toasts st)
   \<and> (localStorage st ''booksWithQuotes'' = Some s \<and> s \<noteq> [] \<and> JSON_parse P s = None \<longrightarrow>
      fetchBooksWithQuotes_resume P Rejected st =
        (st\<lparr>console := console st @ [AxiosError]\<rparr>, Threw SyntaxError)
      \<and> booksWithQuotes (fst (fetchBooksWithQuotes_resume P Rejected st)) = booksWithQuotes st
      \<and> toasts (fst (fetchBooksWithQuotes_resume P Rejected st)) = toasts st)"
  by (auto simp add: fetchBooks_resume_def fetchQuotes_resume_def
        fetchBooksWithQuotes_resume_def effect_defs)

theorem corrupt_cache_entry_throws_witness:
  "localStorage (init demo Map.empty) ''books'' = None
   \<and> localStorage (init demo Map.empty) ''quotes'' = None
   \<and> localStorage (init demo Map.empty) ''booksWithQuotes'' = None
   \<and> snd (fetchBooks_resume demo Rejected (init demo Map.empty)) = Returned
   \<and> snd (fetchQuotes_resume demo Rejected (init demo Map.empty)) = Returned
   \<and> snd (fetchBooksWithQuotes_resume demo Rejected (init demo Map.empty)) = Returned
   \<and> toasts (fst (fetchBooks_resume demo Rejected (init demo Map.empty)))
       = [Toast_error ''Failed to fetch books'']
   \<and> toasts (fst (fetchQuotes_resume demo Rejected (init demo Map.empty)))
       = [Toast_error ''Failed to fetch quotes'']
   \<and> toasts (fst (fetchBooksWithQuotes_resume demo Rejected (init demo Map.empty)))
       = [Toast_error ''Failed to fetch books with quotes'']
   \<and> localStorage (init demo (\<lambda>k. Some ''[oops'')) ''books'' = Some ''[oops''
   \<and> JSON_parse demo ''[oops'' = None
   \<and> snd (fetchBooks_resume demo Rejected (init demo (\<lambda>k. Some ''[oops''))) = Threw SyntaxError
   \<and> snd (fetchQuotes_resume demo Rejected (init demo (\<lambda>k. Some ''[oops''))) = Threw SyntaxError
   \<and> snd (fetchBooksWithQuotes_resume demo Rejected (init demo (\<lambda>k. Some ''[oops'')))
       = Threw SyntaxError
   \<and> toasts (fst (fetchBooksWithQuotes_resume demo Rejected (init demo (\<lambda>k. Some ''[oops''))))
       = []"
proof -
  have corrupt: "JSON_parse demo ''[oops'' = None"
    by (simp add: demo_def parse_titles_def)
  show ?thesis
    using corrupt
      corrupt_cache_entry_throws [where P = demo and st = "init demo Map.empty"
        and s = "''[oops''"]
      corrupt_cache_entry_throws [where P = demo and st = "init demo (\<lambda>k. Some ''[oops'')"
        and s = "''[oops''"]
    by (simp add: init_def)
qed

text \<open>
  The statement fails as the specification words it: with the text \<open>{\<close> cached under the
  key, the fallback of \<open>fetchBooks\<close> and of \<open>fetchQuotes\<close> throws a SyntaxError instead of
  returning, and raises no notification.
\<close>

theorem corrupt_cache_counterexample:
  "snd (fetchBooks_resume demo Rejected (init demo [''books'' \<mapsto> ''{''])) = Threw SyntaxError
   \<and> toasts (fst (fetchBooks_resume demo Rejected (init demo [''books'' \<mapsto> ''{'']))) = []
   \<and> snd (fetchQuotes_resume demo Rejected (init demo [''quotes'' \<mapsto> ''{''])) = Threw SyntaxError
   \<and> toasts (fst (fetchQuotes_resume demo Rejected (init demo [''quotes'' \<mapsto> ''{'']))) = []"
  by (simp add: fetchBooks_resume_def fetchQuotes_resume_def effect_defs init_def demo_def
        parse_titles_def)

section \<open>Adding a quote\<close>

text \<open>
  C10. Add Quote checks the text of the quote and nothing else. If the text is empty or
  consists of white space only, that is, if trimming it leaves nothing, the only effect
  is the notification ``Quote text is required'': no request is issued. Otherwise, when no
  book is selected, the POST is issued all the same, with \<open>book_title\<close> null; it is the
  first request of the call, and the two refreshes follow it if it succeeds. Both
  revisions behave so.
\<close>

theorem addQuote_without_selected_book:
  fixes st :: "'j app" and st0 :: "'j App"
  shows
  "(trim (qtext (quoteForm st)) = [] \<longrightarrow>
      addQuote P r st = st\<lparr>toasts := toasts st @ [Toast_error ''Quote text is required'']\<rparr>)
   \<and> (trim (qtext (quoteForm st)) \<noteq> [] \<and> selectedBook st = None \<longrightarrow>
      requests (addQuote P r st) = requests st @
        Request POST (API P @ ''/quotes'')
          (QuoteBody None (qtext (quoteForm st)) (user_id (quoteForm st))
             (discussion (quoteForm st)))
        # (case r of
             Resolved _ \<Rightarrow> [Request GET (API P @ ''/quotes'') NoBody,
                            Request GET (API P @ ''/books-with-quotes'') NoBody]
           | Rejected \<Rightarrow> []))
   \<and> (trim (qtext (App_quoteForm st0)) = [] \<longrightarrow>
      App_addQuote P r st0 = st0\<lparr>toasts := toasts st0 @ [Toast_error ''Quote text is required'']\<rparr>)
   \<and> (trim (qtext (App_quoteForm st0)) \<noteq> [] \<and> selectedBook st0 = None \<longrightarrow>
      requests (App_addQuote P r st0) = requests st0 @
        Request POST (API P @ ''/quotes'')
          (QuoteBody None (qtext (App_quoteForm st0)) (currentUser st0)
             (discussion (App_quoteForm st0)))
        # (case r of
             Resolved _ \<Rightarrow> [Request GET (API P @ ''/quotes'') NoBody,
                            Request GET (API P @ ''/books-with-quotes'') NoBody]
           | Rejected \<Rightarrow> []))"
  by (simp add: addQuote_def App_addQuote_def fetchQuotes_def fetchBooksWithQuotes_def
        App_fetchBooksWithQuotes_def effect_defs split: outcome.split)

theorem addQuote_without_selected_book_witness:
  "trim (qtext (quoteForm blank_form)) = []
   \<and> trim (qtext (App_quoteForm App_blank_form)) = []
   \<and> requests (addQuote demo (Resolved []) blank_form) = []
   \<and> requests (App_addQuote demo (Resolved []) App_blank_form) = []
   \<and> trim (qtext (quoteForm library)) = ''Call me Ishmael''
   \<and> trim (qtext (App_quoteForm App_library)) = ''Call me Ishmael''
   \<and> selectedBook library = None \<and> selectedBook App_library = None
   \<and> requests (addQuote demo Rejected library) =
       [Request POST (API demo @ ''/quotes'') (QuoteBody None ''Call me Ishmael'' 2 [])]
   \<and> requests (App_addQuote demo Rejected App_library) =
       [Request POST (API demo @ ''/quotes'') (QuoteBody None ''Call me Ishmael'' 1 [])]"
proof -
  have blank: "trim (qtext (quoteForm blank_form)) = []"
    and App_blank: "trim (qtext (App_quoteForm App_blank_form)) = []"
    by (simp_all add: blank_form_def App_blank_form_def init_def App_init_def trim_def
        white_space_def)
  have filled: "trim (qtext (quoteForm library)) = ''Call me Ishmael''"
    and App_filled: "trim (qtext (App_quoteForm App_library)) = ''Call me Ishmael''"
    and none: "selectedBook library = None" and App_none: "selectedBook App_library = None"
    by (simp_all add: library_def App_library_def init_def App_init_def trim_def white_space_def)
  note refused = addQuote_without_selected_book [where P = demo and r = "Resolved []"
      and st = blank_form and ?st0.0 = App_blank_form]
  note issued = addQuote_without_selected_book [where P = demo and r = Rejected
      and st = library and ?st0.0 = App_library]
  have r1: "requests (addQuote demo (Resolved []) blank_form) = []"
    using refused blank by (simp add: blank_form_def init_def)
  have r2: "requests (App_addQuote demo (Resolved []) App_blank_form) = []"
    using refused App_blank by (simp add: App_blank_form_def App_init_def)
  have r3: "requests (addQuote demo Rejected library) =
       [Request POST (API demo @ ''/quotes'') (QuoteBody None ''Call me Ishmael'' 2 [])]"
    using issued filled none by (simp add: library_def init_def)
  have r4: "requests (App_addQuote demo Rejected App_library) =
       [Request POST (API demo @ ''/quotes'') (QuoteBody None ''Call me Ishmael'' 1 [])]"
    using issued App_filled App_none by (simp add: App_library_def App_init_def)
  show ?thesis
    using blank App_blank filled App_filled none App_none r1 r2 r3 r4 by blast
qed

end
